theory Spec2Isabelle
  imports Main "HOL-Library.AList"
begin

section \<open>JavaScript values, objects and the console\<close>

text \<open>
  The library is TypeScript that runs as JavaScript, so the model keeps the run-time view:
  a message table is an object whose own properties are strings (an association list of key
  and value, in the order of the object literal), every object inherits the members of
  \<open>Object.prototype\<close>, and an argument typed as a table may still be
  \<open>undefined\<close>, \<open>null\<close> or a string when the guard of the source looks at it.
  A JavaScript string is a sequence of code units; every character of the built-in tables is
  below 256, so one \<open>char\<close> holds one code unit and the Swedish letters are written by
  their code point (\<open>CHR 0xE4\<close> is a-umlaut).
\<close>

type_synonym table = "(string \<times> string) list"

datatype jsval =
    Undefined
  | Null
  | Str string
  | Obj table
  | ObjectPrototype
  | Builtin string

datatype js_error = TypeError | ReferenceError | NotFoundError

definition truthy :: "jsval \<Rightarrow> bool" where
  "truthy v = (case v of
       Undefined \<Rightarrow> False
     | Null \<Rightarrow> False
     | Str s \<Rightarrow> s \<noteq> []
     | Obj t \<Rightarrow> True
     | ObjectPrototype \<Rightarrow> True
     | Builtin n \<Rightarrow> True)"

definition typeof :: "jsval \<Rightarrow> string" where
  "typeof v = (case v of
       Undefined \<Rightarrow> ''undefined''
     | Null \<Rightarrow> ''object''
     | Str s \<Rightarrow> ''string''
     | Obj t \<Rightarrow> ''object''
     | ObjectPrototype \<Rightarrow> ''object''
     | Builtin n \<Rightarrow> ''function'')"

text \<open>The property names every ordinary object inherits from \<open>Object.prototype\<close>.\<close>

definition objectPrototypeNames :: "string list" where
  "objectPrototypeNames =
    [''constructor'', ''__defineGetter__'', ''__defineSetter__'', ''hasOwnProperty'',
     ''__lookupGetter__'', ''__lookupSetter__'', ''isPrototypeOf'', ''propertyIsEnumerable'',
     ''toString'', ''valueOf'', ''__proto__'', ''toLocaleString'']"

text \<open>Reading a property that the object itself does not own: the inherited member.\<close>

definition inherited :: "string \<Rightarrow> jsval" where
  "inherited k =
     (if k = ''__proto__'' then ObjectPrototype
      else if k \<in> set objectPrototypeNames then Builtin k
      else Undefined)"

text \<open>\<open>t[k]\<close> for a table object \<open>t\<close>.\<close>

definition obj_get :: "table \<Rightarrow> string \<Rightarrow> jsval" where
  "obj_get t k = (case map_of t k of Some s \<Rightarrow> Str s | None \<Rightarrow> inherited k)"

text \<open>\<open>k in v\<close>: own or inherited; only called on objects.\<close>

definition js_in :: "string \<Rightarrow> jsval \<Rightarrow> bool" where
  "js_in k v = (case v of
       Obj t \<Rightarrow> map_of t k \<noteq> None \<or> k \<in> set objectPrototypeNames
     | ObjectPrototype \<Rightarrow> k \<in> set objectPrototypeNames
     | _ \<Rightarrow> False)"

datatype level = Error | Warn

type_synonym log_entry = "level \<times> string"

section \<open>The locale registry (locales/en.ts, locales/sv.ts, locales/index.ts)\<close>

definition enMessages :: table where
  "enMessages =
    [(''skipToContent'', ''Skip to main content''),
     (''mainNavigation'', ''Main navigation''),
     (''userMenu'', ''User menu''),
     (''breadcrumb'', ''Breadcrumb''),
     (''pagination'', ''Pagination''),
     (''siteNavigation'', ''Site navigation''),
     (''footerNavigation'', ''Footer navigation''),
     (''close'', ''Close''),
     (''open'', ''Open''),
     (''save'', ''Save''),
     (''cancel'', ''Cancel''),
     (''delete'', ''Delete''),
     (''edit'', ''Edit''),
     (''submit'', ''Submit''),
     (''search'', ''Search''),
     (''loading'', ''Loading''),
     (''menu'', ''Menu''),
     (''nextPage'', ''Next page''),
     (''previousPage'', ''Previous page''),
     (''currentPage'', ''Current page''),
     (''goToPage'', ''Go to page''),
     (''home'', ''Home''),
     (''dashboard'', ''Dashboard''),
     (''settings'', ''Settings''),
     (''profile'', ''Profile''),
     (''login'', ''Log in''),
     (''logout'', ''Log out''),
     (''register'', ''Register''),
     (''account'', ''Account''),
     (''customers'', ''Customers''),
     (''companies'', ''Companies''),
     (''modules'', ''Modules''),
     (''required'', ''Required''),
     (''optional'', ''Optional''),
     (''error'', ''Error''),
     (''success'', ''Success'')]"

definition svMessages :: table where
  "svMessages =
    [(''skipToContent'', ''Hoppa till huvudinneh'' @ [CHR 0xE5] @ ''ll''),
     (''mainNavigation'', ''Huvudnavigering''),
     (''userMenu'', ''Anv'' @ [CHR 0xE4] @ ''ndarmeny''),
     (''breadcrumb'', ''Navigeringsstig''),
     (''pagination'', ''Sidnumrering''),
     (''siteNavigation'', ''Webbplatsnavigering''),
     (''footerNavigation'', ''Sidfot navigering''),
     (''close'', ''St'' @ [CHR 0xE4] @ ''ng''),
     (''open'', [CHR 0xD6] @ ''ppna''),
     (''save'', ''Spara''),
     (''cancel'', ''Avbryt''),
     (''delete'', ''Ta bort''),
     (''edit'', ''Redigera''),
     (''submit'', ''Skicka''),
     (''search'', ''S'' @ [CHR 0xF6] @ ''k''),
     (''loading'', ''Laddar''),
     (''menu'', ''Meny''),
     (''nextPage'', ''N'' @ [CHR 0xE4] @ ''sta sida''),
     (''previousPage'', ''F'' @ [CHR 0xF6] @ ''reg'' @ [CHR 0xE5] @ ''ende sida''),
     (''currentPage'', ''Nuvarande sida''),
     (''goToPage'', ''G'' @ [CHR 0xE5] @ '' till sida''),
     (''home'', ''Hem''),
     (''dashboard'', [CHR 0xD6] @ ''versikt''),
     (''settings'', ''Inst'' @ [CHR 0xE4] @ ''llningar''),
     (''profile'', ''Profil''),
     (''login'', ''Logga in''),
     (''logout'', ''Logga ut''),
     (''register'', ''Registrera''),
     (''account'', ''Konto''),
     (''customers'', ''Kunder''),
     (''companies'', ''F'' @ [CHR 0xF6] @ ''retag''),
     (''modules'', ''Moduler''),
     (''required'', ''Obligatorisk''),
     (''optional'', ''Valfri''),
     (''error'', ''Fel''),
     (''success'', ''Lyckades'')]"

text \<open>The keys of the interface \<open>A11yMessages\<close>, in the order of its declaration.\<close>

definition a11yMessagesKeys :: "string list" where
  "a11yMessagesKeys =
    [''skipToContent'', ''mainNavigation'', ''userMenu'', ''breadcrumb'', ''pagination'',
     ''siteNavigation'', ''footerNavigation'',
     ''close'', ''open'', ''save'', ''cancel'', ''delete'', ''edit'', ''submit'', ''search'',
     ''loading'', ''menu'',
     ''nextPage'', ''previousPage'', ''currentPage'', ''goToPage'',
     ''home'', ''dashboard'', ''settings'', ''profile'',
     ''login'', ''logout'', ''register'', ''account'',
     ''customers'', ''companies'', ''modules'',
     ''required'', ''optional'', ''error'', ''success'']"

text \<open>The list \<open>requiredKeys\<close> inside \<open>registerLocale\<close>, as the source writes it.\<close>

definition requiredKeys :: "string list" where
  "requiredKeys =
    [''skipToContent'', ''mainNavigation'', ''userMenu'', ''breadcrumb'', ''pagination'',
     ''siteNavigation'', ''footerNavigation'', ''close'', ''open'', ''save'', ''cancel'',
     ''delete'', ''edit'', ''submit'', ''search'', ''loading'', ''menu'', ''nextPage'',
     ''previousPage'', ''currentPage'', ''goToPage'', ''home'', ''dashboard'', ''settings'',
     ''profile'', ''login'', ''logout'', ''register'', ''account'', ''customers'', ''companies'',
     ''modules'']"

text \<open>
  \<open>localeData\<close> is an ordinary object used as a dictionary. Its own properties are the
  registered tables; what it does not own it inherits. Assigning to the key
  \<open>__proto__\<close> runs the setter inherited from \<open>Object.prototype\<close> and replaces the
  prototype of \<open>localeData\<close> instead of adding a property, so the prototype is part of
  the state: \<open>None\<close> is \<open>Object.prototype\<close> itself, \<open>Some t\<close> a table
  installed in its place (a plain object, inheriting from \<open>Object.prototype\<close> in turn).
\<close>

record registry =
  own :: "(string \<times> table) list"
  proto :: "table option"

definition reg_get :: "registry \<Rightarrow> string \<Rightarrow> jsval" where
  "reg_get r k =
     (if k = ''__proto__'' then (case proto r of None \<Rightarrow> ObjectPrototype | Some t \<Rightarrow> Obj t)
      else case map_of (own r) k of
             Some t \<Rightarrow> Obj t
           | None \<Rightarrow> (case proto r of None \<Rightarrow> inherited k | Some p \<Rightarrow> obj_get p k))"

definition reg_set :: "registry \<Rightarrow> string \<Rightarrow> table \<Rightarrow> registry" where
  "reg_set r k t =
     (if k = ''__proto__'' then r\<lparr>proto := Some t\<rparr>
      else r\<lparr>own := AList.update k t (own r)\<rparr>)"

text \<open>
  The module state: \<open>localeData\<close>, \<open>currentLocale\<close>, \<open>messages\<close>, and what the
  module has written to the console (level and first argument of each call).
\<close>

record locale_state =
  localeData :: registry
  currentLocale :: string
  messages :: jsval
  localeLog :: "log_entry list"

definition initial_locale_state :: locale_state where
  "initial_locale_state =
     \<lparr>localeData = \<lparr>own = [(''en'', enMessages), (''sv'', svMessages)], proto = None\<rparr>,
      currentLocale = ''en'',
      messages = Obj enMessages,
      localeLog = []\<rparr>"

definition locale_console :: "level \<Rightarrow> string \<Rightarrow> locale_state \<Rightarrow> locale_state" where
  "locale_console l m st = st\<lparr>localeLog := localeLog st @ [(l, m)]\<rparr>"

text \<open>
  The second argument is whatever the caller passes. Past the two guards and the key check
  it is an object that has every listed key, and only a table has them
  (\<open>Object.prototype\<close> has none), so the last case distinction never reaches its
  second branch.
\<close>

definition registerLocale :: "string \<Rightarrow> jsval \<Rightarrow> locale_state \<Rightarrow> locale_state" where
  "registerLocale locale localeMessages st =
     (if locale = [] then
        locale_console Error ''[a11y-core] registerLocale: locale code is required'' st
      else if \<not> truthy localeMessages \<or> typeof localeMessages \<noteq> ''object'' then
        locale_console Error
          ''[a11y-core] registerLocale: localeMessages must be an object with all A11yMessages keys'' st
      else
        let missingKeys = filter (\<lambda>key. \<not> js_in key localeMessages) requiredKeys in
        if length missingKeys > 0 then
          locale_console Error
            (''[a11y-core] registerLocale: Missing required message keys for locale ''
               @ [CHR 0x22] @ locale @ [CHR 0x22] @ '':'') st
        else
          (case localeMessages of
             Obj t \<Rightarrow> st\<lparr>localeData := reg_set (localeData st) locale t\<rparr>
           | _ \<Rightarrow> st))"

text \<open>
  \<open>setLocale\<close> is declared \<open>async\<close> but awaits nothing: its body has run to the end
  when the call returns its promise.
\<close>

definition setLocale :: "string \<Rightarrow> locale_state \<Rightarrow> locale_state" where
  "setLocale locale st =
     (if locale = [] then
        locale_console Error ''[a11y-core] setLocale: locale code is required'' st
      else if \<not> truthy (reg_get (localeData st) locale) then
        (locale_console Warn
           (''[a11y-core] setLocale: Locale '' @ [CHR 0x22] @ locale @ [CHR 0x22]
              @ '' not found. Falling back to English.'') st)
          \<lparr>currentLocale := ''en'', messages := reg_get (localeData st) ''en''\<rparr>
      else
        st\<lparr>currentLocale := locale, messages := reg_get (localeData st) locale\<rparr>)"

definition getCurrentLocale :: "locale_state \<Rightarrow> string" where
  "getCurrentLocale st = currentLocale st"

definition getMessages :: "locale_state \<Rightarrow> jsval" where
  "getMessages st = messages st"

section \<open>The document, as the library sees it\<close>

text \<open>
  An element is the object the code holds a reference to. \<open>eid\<close> is its identity
  (\<open>===\<close> compares it); the other fields are what the code reads: whether it is an
  instance of \<open>HTMLElement\<close>, whether its \<open>focus\<close> property is a function, its
  \<open>tagName\<close>, the IDL property \<open>tabIndex\<close> and its attributes. The code of the
  library never changes these fields of an element it did not create, so a reference is
  modelled by the record itself.
\<close>

record element =
  eid :: nat
  isHTMLElement :: bool
  focusIsFunction :: bool
  tagName :: string
  tabIndex :: int
  attributes :: "(string \<times> string) list"
  textContent :: string
  style :: "(string \<times> string) list"

datatype node = Node (elem: element) (children: "node list")

definition ascii_lower :: "char \<Rightarrow> char" where
  "ascii_lower c =
     (case map_of (zip ''ABCDEFGHIJKLMNOPQRSTUVWXYZ'' ''abcdefghijklmnopqrstuvwxyz'') c of
        Some d \<Rightarrow> d | None \<Rightarrow> c)"

definition ascii_upper :: "char \<Rightarrow> char" where
  "ascii_upper c =
     (case map_of (zip ''abcdefghijklmnopqrstuvwxyz'' ''ABCDEFGHIJKLMNOPQRSTUVWXYZ'') c of
        Some d \<Rightarrow> d | None \<Rightarrow> c)"

text \<open>
  On an HTML element \<open>getAttribute\<close>, \<open>hasAttribute\<close> and \<open>setAttribute\<close> put
  the name they are given in ASCII lower case first; on any other element the name is taken
  as it is.
\<close>

definition attr_name :: "element \<Rightarrow> string \<Rightarrow> string" where
  "attr_name e n = (if isHTMLElement e then map ascii_lower n else n)"

definition getAttribute :: "element \<Rightarrow> string \<Rightarrow> string option" where
  "getAttribute e n = map_of (attributes e) (attr_name e n)"

definition hasAttribute :: "element \<Rightarrow> string \<Rightarrow> bool" where
  "hasAttribute e n = (map_of (attributes e) (attr_name e n) \<noteq> None)"


subsection \<open>isFocusable (focus.ts)\<close>

definition focusableTags :: "string list" where
  "focusableTags = [''A'', ''BUTTON'', ''INPUT'', ''SELECT'', ''TEXTAREA'']"

definition isFocusable :: "element \<Rightarrow> bool" where
  "isFocusable element =
     (if tabIndex element > 0 \<or> (tabIndex element = 0 \<and> getAttribute element ''tabIndex'' \<noteq> None)
      then True
      else if hasAttribute element ''disabled'' then False
      else tagName element \<in> set focusableTags)"

subsection \<open>Selectors and querySelectorAll\<close>

text \<open>
  The selector of \<open>trapFocus\<close> is a list of compound selectors; a compound selector is a
  list of simple selectors that must all match. A type selector matches an HTML element by
  its upper-cased \<open>tagName\<close> and any other element by the name as written; an attribute
  selector compares the value of \<open>tabindex\<close> exactly.
\<close>

datatype simple_selector =
    TypeSel string
  | AttrSel string
  | AttrEqSel string string
  | NotSel simple_selector

fun matches_simple :: "element \<Rightarrow> simple_selector \<Rightarrow> bool" where
  "matches_simple e (TypeSel n) =
     (tagName e = (if isHTMLElement e then map ascii_upper n else n))"
| "matches_simple e (AttrSel a) = (map_of (attributes e) a \<noteq> None)"
| "matches_simple e (AttrEqSel a v) = (map_of (attributes e) a = Some v)"
| "matches_simple e (NotSel s) = (\<not> matches_simple e s)"

definition matches_selector :: "simple_selector list list \<Rightarrow> element \<Rightarrow> bool" where
  "matches_selector sel e = list_ex (\<lambda>compound. list_all (matches_simple e) compound) sel"

text \<open>The descendants of a node in document order (a pre-order walk; the node itself is not one).\<close>

fun descendants :: "node \<Rightarrow> element list" where
  "descendants (Node e cs) = concat (map (\<lambda>c. elem c # descendants c) cs)"

definition querySelectorAll :: "node \<Rightarrow> simple_selector list list \<Rightarrow> element list" where
  "querySelectorAll n sel = filter (matches_selector sel) (descendants n)"

text \<open>\<open>'button, [href], input, select, textarea, [tabindex]:not([tabindex="-1"])'\<close>\<close>

definition focusableSelector :: "simple_selector list list" where
  "focusableSelector =
     [[TypeSel ''button''], [AttrSel ''href''], [TypeSel ''input''], [TypeSel ''select''],
      [TypeSel ''textarea''], [AttrSel ''tabindex'', NotSel (AttrEqSel ''tabindex'' ''-1'')]]"

text \<open>\<open>list[i]\<close> on a NodeList: \<open>undefined\<close> (here \<open>None\<close>) outside its range.\<close>

definition item :: "'a list \<Rightarrow> int \<Rightarrow> 'a option" where
  "item xs i = (if 0 \<le> i \<and> i < int (length xs) then Some (xs ! nat i) else None)"

subsection \<open>The environment\<close>

text \<open>
  \<open>hasDocument\<close> is false where \<open>typeof document\<close> is \<open>'undefined'\<close>.
  \<open>activeElement\<close> is \<open>document.activeElement\<close> (\<open>None\<close> for \<open>null\<close>), and
  \<open>focusCalls\<close> lists the elements whose \<open>focus()\<close> has run. A call of
  \<open>focus()\<close> is taken to move the focus to the element; whether a browser honours the call
  for a disabled or hidden element is outside the code of the library.
  \<open>body\<close> holds the children of \<open>document.body\<close> (which, by its type, is
  there whenever the document is), \<open>timers\<close> the pending
  \<open>setTimeout\<close> callbacks with the time (in milliseconds) at which each is due,
  \<open>uncaught\<close> the exceptions thrown inside callbacks, and \<open>console\<close> the level and
  first argument of each call of \<open>console.error\<close> and \<open>console.warn\<close>.
\<close>

record listener =
  target :: nat
  eventType :: string
  fnId :: nat
  closureFirst :: "element option"
  closureLast :: "element option"

record timer =
  due :: nat
  removes :: element

record env =
  hasDocument :: bool
  activeElement :: "element option"
  focusCalls :: "nat list"
  listeners :: "listener list"
  nextFunction :: nat
  body :: "element list"
  nextElement :: nat
  timers :: "timer list"
  now :: nat
  uncaught :: "js_error list"
  console :: "log_entry list"

record keyboardEvent =
  key :: string
  shiftKey :: bool
  defaultPrevented :: bool

definition console_log :: "level \<Rightarrow> string \<Rightarrow> env \<Rightarrow> env" where
  "console_log l m st = st\<lparr>console := console st @ [(l, m)]\<rparr>"

text \<open>\<open>x.focus()\<close>: a TypeError when \<open>focus\<close> is not a function.\<close>

definition call_focus :: "element \<Rightarrow> env \<Rightarrow> js_error + env" where
  "call_focus e st =
     (if focusIsFunction e
      then Inr (st\<lparr>activeElement := Some e, focusCalls := focusCalls st @ [eid e]\<rparr>)
      else Inl TypeError)"

text \<open>\<open>x?.focus()\<close>: nothing happens when \<open>x\<close> is \<open>undefined\<close>.\<close>

definition optional_call_focus :: "element option \<Rightarrow> env \<Rightarrow> js_error + env" where
  "optional_call_focus x st = (case x of None \<Rightarrow> Inr st | Some e \<Rightarrow> call_focus e st)"

text \<open>
  \<open>document.activeElement === x\<close>, where the left side is an element or \<open>null\<close> and
  the right side an element or \<open>undefined\<close>: \<open>null\<close> and \<open>undefined\<close> are not
  strictly equal.
\<close>

definition strict_equal :: "element option \<Rightarrow> element option \<Rightarrow> bool" where
  "strict_equal a x = (case (a, x) of (Some p, Some q) \<Rightarrow> eid p = eid q | _ \<Rightarrow> False)"

definition preventDefault :: "keyboardEvent \<Rightarrow> keyboardEvent" where
  "preventDefault e = e\<lparr>defaultPrevented := True\<rparr>"

subsection \<open>trapFocus (focus.ts)\<close>

text \<open>
  \<open>handleKeyDown\<close> is a closure over \<open>firstFocusable\<close> and \<open>lastFocusable\<close>;
  they are its first two arguments here.
\<close>

definition handleKeyDown ::
  "element option \<Rightarrow> element option \<Rightarrow> keyboardEvent \<Rightarrow> env \<Rightarrow> js_error + (keyboardEvent \<times> env)" where
  "handleKeyDown firstFocusable lastFocusable e st =
     (if key e \<noteq> ''Tab'' then Inr (e, st)
      else if \<not> hasDocument st then Inl ReferenceError
      else if shiftKey e then
        (if strict_equal (activeElement st) firstFocusable then
           (case optional_call_focus lastFocusable st of
              Inl x \<Rightarrow> Inl x
            | Inr st' \<Rightarrow> Inr (preventDefault e, st'))
         else Inr (e, st))
      else
        (if strict_equal (activeElement st) lastFocusable then
           (case optional_call_focus firstFocusable st of
              Inl x \<Rightarrow> Inl x
            | Inr st' \<Rightarrow> Inr (preventDefault e, st'))
         else Inr (e, st)))"

definition same_listener :: "nat \<Rightarrow> string \<Rightarrow> nat \<Rightarrow> listener \<Rightarrow> bool" where
  "same_listener t ty f l = (target l = t \<and> eventType l = ty \<and> fnId l = f)"

text \<open>Adding a listener that is already registered for the target and type does nothing.\<close>

definition addEventListener :: "listener \<Rightarrow> env \<Rightarrow> env" where
  "addEventListener l st =
     (if list_ex (same_listener (target l) (eventType l) (fnId l)) (listeners st) then st
      else st\<lparr>listeners := listeners st @ [l]\<rparr>)"



text \<open>
  The function \<open>trapFocus\<close> returns: the empty function, or the closure that removes
  the listener it installed (target, event type and identity of \<open>handleKeyDown\<close>).
\<close>

datatype release = EmptyFunction | RemoveListener nat string nat


definition focusableElements :: "node \<Rightarrow> element list" where
  "focusableElements n = querySelectorAll n focusableSelector"

definition trapFocus :: "node option \<Rightarrow> env \<Rightarrow> js_error + (release \<times> env)" where
  "trapFocus element st =
     (case element of
        None \<Rightarrow>
          Inr (EmptyFunction,
               console_log Error
                 ''[a11y-core] trapFocus: element is null or undefined. Make sure to pass a valid DOM element.''
                 st)
      | Some n \<Rightarrow>
         (if \<not> hasDocument st then
            Inr (EmptyFunction,
                 console_log Warn
                   ''[a11y-core] trapFocus: Running in non-browser environment. Focus trap will be disabled.''
                   st)
          else
            let firstFocusable = item (focusableElements n) 0;
                lastFocusable = item (focusableElements n) (int (length (focusableElements n)) - 1);
                f = nextFunction st;
                st1 = addEventListener
                        \<lparr>target = eid (elem n), eventType = ''keydown'', fnId = f,
                         closureFirst = firstFocusable, closureLast = lastFocusable\<rparr>
                        (st\<lparr>nextFunction := Suc f\<rparr>)
            in (case optional_call_focus firstFocusable st1 of
                  Inl x \<Rightarrow> Inl x
                | Inr st2 \<Rightarrow> Inr (RemoveListener (eid (elem n)) ''keydown'' f, st2))))"



subsection \<open>FocusManager (focus.ts)\<close>





section \<open>announceToScreenReader (screen-reader.ts)\<close>













text \<open>A browser at rest: a document, nothing focused, nothing registered or scheduled.\<close>

definition browser :: env where
  "browser =
     \<lparr>hasDocument = True, activeElement = None, focusCalls = [], listeners = [],
      nextFunction = 0, body = [], nextElement = 0, timers = [], now = 0,
      uncaught = [], console = []\<rparr>"

section \<open>Identities are fresh\<close>

text \<open>
  A function created by a call and an element created by \<open>createElement\<close> are new
  objects: nothing that exists already has their identity. In the model the next identity
  is a counter, so this is the invariant that everything registered so far lies below it.
\<close>

definition fresh_functions :: "env \<Rightarrow> bool" where
  "fresh_functions st = list_all (\<lambda>l. fnId l < nextFunction st) (listeners st)"




section \<open>The focusable set as the specification words it\<close>



section \<open>Example documents\<close>

text \<open>
  An HTML element as the parser builds it: an instance of \<open>HTMLElement\<close> whose
  \<open>focus\<close> is the method of its prototype.
\<close>

definition htmlElement :: "nat \<Rightarrow> string \<Rightarrow> int \<Rightarrow> (string \<times> string) list \<Rightarrow> element" where
  "htmlElement i tag ti attrs =
     \<lparr>eid = i, isHTMLElement = True, focusIsFunction = True, tagName = tag, tabIndex = ti,
      attributes = attrs, textContent = [], style = []\<rparr>"





text \<open>A dialog with nothing to focus: a heading and a paragraph.\<close>

definition textDialog :: node where
  "textDialog = Node (htmlElement 1 ''DIV'' (- 1) [(''role'', ''dialog'')])
                  [Node (htmlElement 2 ''H2'' (- 1) []) [], Node (htmlElement 3 ''P'' (- 1) []) []]"



definition tabKey :: "bool \<Rightarrow> keyboardEvent" where
  "tabKey shift = \<lparr>key = ''Tab'', shiftKey = shift, defaultPrevented = False\<rparr>"

section \<open>Properties of the locale registry\<close>

lemma reg_get_reg_set: "reg_get (reg_set r c t) c = Obj t"
  by (simp add: reg_get_def reg_set_def update_conv')

lemma registerLocale_frame:
  "currentLocale (registerLocale c v st) = currentLocale st \<and>
   messages (registerLocale c v st) = messages st"
  by (simp add: registerLocale_def locale_console_def Let_def split: jsval.splits)

text \<open>
  The built-in tables have exactly the keys of the interface, in its order; the list the
  code checks is the interface without its last four keys.
\<close>

lemma builtin_tables_complete:
  "map fst enMessages = a11yMessagesKeys \<and> map fst svMessages = a11yMessagesKeys"
  by (simp add: enMessages_def svMessages_def a11yMessagesKeys_def)

lemma unchecked_keys:
  "filter (\<lambda>k. k \<notin> set requiredKeys) a11yMessagesKeys =
     [''required'', ''optional'', ''error'', ''success''] \<and>
   a11yMessagesKeys = requiredKeys @ [''required'', ''optional'', ''error'', ''success'']"
  by (simp add: requiredKeys_def a11yMessagesKeys_def)

text \<open>
  A table that lacks one of the keys the code lists is turned away, whatever the locale
  code.
\<close>

lemma registerLocale_rejects:
  assumes "k \<in> set requiredKeys" and "\<not> js_in k v"
  shows "localeData (registerLocale c v st) = localeData st"
proof -
  from assms have "filter (\<lambda>key. \<not> js_in key v) requiredKeys \<noteq> []"
    by (auto simp: filter_empty_conv)
  then show ?thesis
    by (simp add: registerLocale_def locale_console_def Let_def)
qed

text \<open>Nothing but a table is ever stored.\<close>

lemma registerLocale_stores_tables_only:
  assumes "\<And>t. v \<noteq> Obj t"
  shows "localeData (registerLocale c v st) = localeData st"
proof (cases v)
  case (Obj t)
  with assms show ?thesis by blast
qed (simp_all add: registerLocale_def locale_console_def Let_def)

lemma registerLocale_accepts:
  assumes "c \<noteq> []" and "\<forall>k\<in>set requiredKeys. map_of t k \<noteq> None"
  shows "registerLocale c (Obj t) st = st\<lparr>localeData := reg_set (localeData st) c t\<rparr>"
proof -
  from assms(2) have "filter (\<lambda>key. \<not> js_in key (Obj t)) requiredKeys = []"
    by (auto simp: filter_empty_conv js_in_def)
  with assms(1) show ?thesis
    by (simp add: registerLocale_def truthy_def typeof_def)
qed

lemma setLocale_found:
  "c \<noteq> [] \<Longrightarrow> truthy (reg_get (localeData st) c) \<Longrightarrow>
   setLocale c st = st\<lparr>currentLocale := c, messages := reg_get (localeData st) c\<rparr>"
  by (simp add: setLocale_def)

text \<open>
  Claim C1. A table that misses a key of the message interface is to be rejected, the
  registry left as it was. The code checks the 32 names of \<open>requiredKeys\<close>; the
  interface \<open>A11yMessages\<close> has 36, and \<open>required\<close>, \<open>optional\<close>,
  \<open>error\<close> and \<open>success\<close> are not in the list. The English table without
  \<open>success\<close> misses a key of the interface, yet registering it under \<open>de\<close> logs
  nothing and stores it: the registry, which had no entry for \<open>de\<close>, now answers with
  the incomplete table.
\<close>

theorem registerLocale_accepts_table_without_success:
  "''success'' \<in> set a11yMessagesKeys \<and>
   \<not> js_in ''success'' (Obj (AList.delete ''success'' enMessages)) \<and>
   localeLog (registerLocale ''de'' (Obj (AList.delete ''success'' enMessages)) initial_locale_state) = [] \<and>
   reg_get (localeData initial_locale_state) ''de'' = Undefined \<and>
   reg_get (localeData (registerLocale ''de'' (Obj (AList.delete ''success'' enMessages))
      initial_locale_state)) ''de''
     = Obj (AList.delete ''success'' enMessages)"
proof -
  have key: "''success'' \<in> set a11yMessagesKeys"
    by (simp add: a11yMessagesKeys_def)
  have missing: "\<not> js_in ''success'' (Obj (AList.delete ''success'' enMessages))"
    by (simp add: js_in_def enMessages_def objectPrototypeNames_def)
  have none: "filter (\<lambda>key. \<not> js_in key (Obj (AList.delete ''success'' enMessages))) requiredKeys = []"
    by (simp add: requiredKeys_def js_in_def enMessages_def)
  have run: "registerLocale ''de'' (Obj (AList.delete ''success'' enMessages)) initial_locale_state =
      initial_locale_state\<lparr>localeData := reg_set (localeData initial_locale_state) ''de''
         (AList.delete ''success'' enMessages)\<rparr>"
    by (simp add: registerLocale_def truthy_def typeof_def none)
  have before: "reg_get (localeData initial_locale_state) ''de'' = Undefined"
    by (simp add: initial_locale_state_def reg_get_def inherited_def objectPrototypeNames_def)
  show ?thesis
    using key missing before
    by (simp add: run reg_get_reg_set) (simp add: initial_locale_state_def)
qed

theorem registerLocale_accepts_table_without_success_witness:
  "reg_get (localeData (registerLocale ''de'' (Obj (AList.delete ''success'' enMessages))
      initial_locale_state)) ''de'' \<noteq> Undefined"
  using registerLocale_accepts_table_without_success by simp

text \<open>
  Claim C10. \<open>registerLocale\<close> never touches the current locale or the active table:
  \<open>getCurrentLocale()\<close> and \<open>getMessages()\<close> answer the same before and after any
  call, accepted or rejected, also when the code is the active one. An accepted table (a
  non-empty code, every listed key present) becomes the active table only with the next
  \<open>setLocale(code)\<close>.
\<close>

theorem registerLocale_leaves_active_locale:
  "getCurrentLocale (registerLocale code v st) = getCurrentLocale st \<and>
   getMessages (registerLocale code v st) = getMessages st \<and>
   (code \<noteq> [] \<and> (\<forall>k\<in>set requiredKeys. map_of t k \<noteq> None) \<longrightarrow>
      getMessages (registerLocale code (Obj t) st) = getMessages st \<and>
      getMessages (setLocale code (registerLocale code (Obj t) st)) = Obj t \<and>
      getCurrentLocale (setLocale code (registerLocale code (Obj t) st)) = code)"
proof -
  have frame: "\<And>w. currentLocale (registerLocale code w st) = currentLocale st \<and>
      messages (registerLocale code w st) = messages st"
    by (rule registerLocale_frame)
  have "getMessages (setLocale code (registerLocale code (Obj t) st)) = Obj t \<and>
      getCurrentLocale (setLocale code (registerLocale code (Obj t) st)) = code"
    if ne: "code \<noteq> []" and all: "\<forall>k\<in>set requiredKeys. map_of t k \<noteq> None"
  proof -
    have acc: "registerLocale code (Obj t) st = st\<lparr>localeData := reg_set (localeData st) code t\<rparr>"
      using ne all by (rule registerLocale_accepts)
    have "truthy (reg_get (localeData (registerLocale code (Obj t) st)) code)"
      by (simp add: acc reg_get_reg_set truthy_def)
    from setLocale_found [OF ne this] show ?thesis
      by (simp add: getMessages_def getCurrentLocale_def acc reg_get_reg_set)
  qed
  with frame show ?thesis
    by (simp add: getMessages_def getCurrentLocale_def)
qed

text \<open>
  The witness: Swedish is active and \<open>sv\<close> is registered again, with the English table.
  The active table stays the Swedish one until \<open>setLocale('sv')\<close> runs.
\<close>

theorem registerLocale_leaves_active_locale_witness:
  "getCurrentLocale (registerLocale ''sv'' (Obj enMessages) (setLocale ''sv'' initial_locale_state)) = ''sv'' \<and>
   getMessages (registerLocale ''sv'' (Obj enMessages) (setLocale ''sv'' initial_locale_state)) = Obj svMessages \<and>
   getMessages (setLocale ''sv''
      (registerLocale ''sv'' (Obj enMessages) (setLocale ''sv'' initial_locale_state))) = Obj enMessages"
proof -
  have all: "\<forall>k\<in>set requiredKeys. map_of enMessages k \<noteq> None"
    by (simp add: requiredKeys_def enMessages_def)
  have sv: "setLocale ''sv'' initial_locale_state =
      initial_locale_state\<lparr>currentLocale := ''sv'', messages := Obj svMessages\<rparr>"
    by (simp add: setLocale_def initial_locale_state_def reg_get_def truthy_def)
  have ne: "''sv'' \<noteq> []" by simp
  from registerLocale_leaves_active_locale
         [of "''sv''" "Obj enMessages" "setLocale ''sv'' initial_locale_state" enMessages] ne all
  show ?thesis
    by (simp add: sv getMessages_def getCurrentLocale_def)
qed








section \<open>Properties of focus management\<close>

subsection \<open>Facts about the operations\<close>

lemma attr_name_html:
  "isHTMLElement e \<Longrightarrow> attr_name e ''tabIndex'' = ''tabindex''"
  "isHTMLElement e \<Longrightarrow> attr_name e ''disabled'' = ''disabled''"
  by (simp_all add: attr_name_def ascii_lower_def)



lemma item_empty: "item [] i = None"
  by (simp add: item_def)

lemma addEventListener_fresh:
  "fresh_functions st \<Longrightarrow> fnId l = nextFunction st \<Longrightarrow>
   addEventListener l (st\<lparr>nextFunction := Suc (nextFunction st)\<rparr>) =
     st\<lparr>nextFunction := Suc (nextFunction st), listeners := listeners st @ [l]\<rparr>"
  by (auto simp: addEventListener_def fresh_functions_def same_listener_def list_ex_iff list_all_iff)

lemma addEventListener_focus:
  "activeElement (addEventListener l st) = activeElement st \<and>
   focusCalls (addEventListener l st) = focusCalls st"
  by (simp add: addEventListener_def)


lemma trapFocus_no_document:
  "\<not> hasDocument st \<Longrightarrow> trapFocus (Some n) st = Inr (EmptyFunction, console_log Warn
     ''[a11y-core] trapFocus: Running in non-browser environment. Focus trap will be disabled.'' st)"
  by (simp add: trapFocus_def)

lemma trapFocus_empty:
  assumes "hasDocument st" "fresh_functions st" "focusableElements n = []"
  shows "trapFocus (Some n) st =
     Inr (RemoveListener (eid (elem n)) ''keydown'' (nextFunction st),
          st\<lparr>nextFunction := Suc (nextFunction st),
             listeners := listeners st @
               [\<lparr>target = eid (elem n), eventType = ''keydown'', fnId = nextFunction st,
                 closureFirst = None, closureLast = None\<rparr>]\<rparr>)"
  using assms
  by (simp add: trapFocus_def Let_def item_empty optional_call_focus_def addEventListener_fresh)


lemma handleKeyDown_other_key: "key e \<noteq> ''Tab'' \<Longrightarrow> handleKeyDown f l e st = Inr (e, st)"
  by (simp add: handleKeyDown_def)


lemma strict_equal_None: "strict_equal a None = False"
  by (cases a) (simp_all add: strict_equal_def)








subsection \<open>The example documents, evaluated\<close>


lemma focusableElements_textDialog: "focusableElements textDialog = []"
  by (simp add: focusableElements_def querySelectorAll_def textDialog_def matches_selector_def
      focusableSelector_def htmlElement_def ascii_upper_def)




subsection \<open>The claims\<close>

text \<open>
  Claim C6. \<open>isFocusable\<close> applies its rules in order. A \<open>tabIndex\<close> above zero, or
  a \<open>tabIndex\<close> of zero together with a \<open>tabindex\<close> attribute, makes the element
  focusable. Failing that, a \<open>disabled\<close> attribute makes it not focusable. Failing
  that too, it is focusable exactly when its tag is one of A, BUTTON, INPUT, SELECT and
  TEXTAREA. On an HTML element the two attribute tests are tests for the presence of the
  attribute, whatever its value.
\<close>

theorem isFocusable_rules:
  "(0 < tabIndex e \<longrightarrow> isFocusable e) \<and>
   (tabIndex e = 0 \<and> getAttribute e ''tabIndex'' \<noteq> None \<longrightarrow> isFocusable e) \<and>
   (\<not> (0 < tabIndex e \<or> tabIndex e = 0 \<and> getAttribute e ''tabIndex'' \<noteq> None) \<longrightarrow>
      (hasAttribute e ''disabled'' \<longrightarrow> \<not> isFocusable e) \<and>
      (\<not> hasAttribute e ''disabled'' \<longrightarrow>
         isFocusable e = (tagName e \<in> {''A'', ''BUTTON'', ''INPUT'', ''SELECT'', ''TEXTAREA''}))) \<and>
   (isHTMLElement e \<longrightarrow>
      (getAttribute e ''tabIndex'' \<noteq> None) = (''tabindex'' \<in> fst ` set (attributes e)) \<and>
      hasAttribute e ''disabled'' = (''disabled'' \<in> fst ` set (attributes e)))"
proof -
  have html: "(getAttribute e ''tabIndex'' \<noteq> None) = (''tabindex'' \<in> fst ` set (attributes e)) \<and>
      hasAttribute e ''disabled'' = (''disabled'' \<in> fst ` set (attributes e))"
    if "isHTMLElement e"
    using that
    by (simp add: getAttribute_def hasAttribute_def attr_name_html map_of_eq_None_iff)
  have rules: "(0 < tabIndex e \<longrightarrow> isFocusable e) \<and>
   (tabIndex e = 0 \<and> getAttribute e ''tabIndex'' \<noteq> None \<longrightarrow> isFocusable e) \<and>
   (\<not> (0 < tabIndex e \<or> tabIndex e = 0 \<and> getAttribute e ''tabIndex'' \<noteq> None) \<longrightarrow>
      (hasAttribute e ''disabled'' \<longrightarrow> \<not> isFocusable e) \<and>
      (\<not> hasAttribute e ''disabled'' \<longrightarrow>
         isFocusable e = (tagName e \<in> {''A'', ''BUTTON'', ''INPUT'', ''SELECT'', ''TEXTAREA''})))"
    by (auto simp: isFocusable_def focusableTags_def)
  from html rules show ?thesis by blast
qed

theorem isFocusable_rules_witness:
  "isFocusable (htmlElement 1 ''DIV'' 3 [(''tabindex'', ''3'')]) \<and>
   isFocusable (htmlElement 1 ''DIV'' 0 [(''tabindex'', ''0'')]) \<and>
   \<not> isFocusable (htmlElement 1 ''BUTTON'' 0 [(''disabled'', [])]) \<and>
   isFocusable (htmlElement 1 ''BUTTON'' 0 []) \<and>
   \<not> isFocusable (htmlElement 1 ''DIV'' (- 1) [])"
proof -
  have a: "isFocusable (htmlElement 1 ''DIV'' 3 [(''tabindex'', ''3'')])"
    using isFocusable_rules [of "htmlElement 1 ''DIV'' 3 [(''tabindex'', ''3'')]"]
    by (simp add: htmlElement_def)
  have b: "isFocusable (htmlElement 1 ''DIV'' 0 [(''tabindex'', ''0'')])"
    using isFocusable_rules [of "htmlElement 1 ''DIV'' 0 [(''tabindex'', ''0'')]"]
    by (simp add: htmlElement_def)
  have c: "\<not> isFocusable (htmlElement 1 ''BUTTON'' 0 [(''disabled'', [])])"
    using isFocusable_rules [of "htmlElement 1 ''BUTTON'' 0 [(''disabled'', [])]"]
    by (simp add: htmlElement_def)
  have d: "isFocusable (htmlElement 1 ''BUTTON'' 0 [])"
    using isFocusable_rules [of "htmlElement 1 ''BUTTON'' 0 []"]
    by (simp add: htmlElement_def)
  have e: "\<not> isFocusable (htmlElement 1 ''DIV'' (- 1) [])"
    using isFocusable_rules [of "htmlElement 1 ''DIV'' (- 1) []"]
    by (simp add: htmlElement_def)
  from a b c d e show ?thesis by simp
qed






text \<open>
  Claim C9. When no descendant of the container matches the selector, \<open>firstFocusable\<close>
  and \<open>lastFocusable\<close> are \<open>undefined\<close>; activating the trap returns normally, and
  neither the focus nor the list of \<open>focus()\<close> calls changes; and the handler such a trap
  installs returns normally on every key event in a document, leaving event and document
  untouched. (What makes this hold is the optional call: \<open>optional_call_focus None\<close>
  does nothing, where a plain call on \<open>undefined\<close> is a TypeError.)
\<close>

theorem trapFocus_nothing_focusable:
  assumes "focusableElements n = []"
  shows "item (focusableElements n) 0 = None \<and>
     item (focusableElements n) (int (length (focusableElements n)) - 1) = None \<and>
     (\<exists>r st'. trapFocus (Some n) st = Inr (r, st') \<and>
        activeElement st' = activeElement st \<and> focusCalls st' = focusCalls st) \<and>
     (hasDocument st2 \<longrightarrow> handleKeyDown None None e st2 = Inr (e, st2))"
proof (intro conjI impI)
  show "item (focusableElements n) 0 = None"
    and "item (focusableElements n) (int (length (focusableElements n)) - 1) = None"
    using assms by (simp_all add: item_empty)
next
  show "\<exists>r st'. trapFocus (Some n) st = Inr (r, st') \<and>
        activeElement st' = activeElement st \<and> focusCalls st' = focusCalls st"
  proof (cases "hasDocument st")
    case False
    then show ?thesis
      by (simp add: trapFocus_no_document console_log_def)
  next
    case True
    with assms show ?thesis
      by (simp add: trapFocus_def Let_def item_empty optional_call_focus_def addEventListener_focus)
  qed
next
  assume "hasDocument st2"
  then show "handleKeyDown None None e st2 = Inr (e, st2)"
    by (simp add: handleKeyDown_def strict_equal_None)
qed

theorem trapFocus_nothing_focusable_witness:
  "(\<exists>r st'. trapFocus (Some textDialog) browser = Inr (r, st') \<and>
      activeElement st' = None \<and> focusCalls st' = []) \<and>
   handleKeyDown None None (tabKey True) browser = Inr (tabKey True, browser) \<and>
   handleKeyDown None None (tabKey False) browser = Inr (tabKey False, browser)"
proof -
  have doc: "hasDocument browser" "activeElement browser = None" "focusCalls browser = []"
    by (simp_all add: browser_def)
  from trapFocus_nothing_focusable [OF focusableElements_textDialog, of browser browser "tabKey True"]
    trapFocus_nothing_focusable [OF focusableElements_textDialog, of browser browser "tabKey False"]
  show ?thesis
    by (simp add: doc)
qed





section \<open>Properties of the announcer\<close>

















end
